theory Spec2Isabelle
  imports Complex_Main
begin

section \<open>The DCF worker (src/workers/dcf/app.py)\<close>

text \<open>
  The valuation engine is modelled function by function. The floating-point arithmetic
  of the platform is a parameter of the model: every definition takes an arithmetic
  \<open>A\<close>, a record of the operations the code applies to floats, over a type \<open>'f\<close> of
  float values (which may include infinities and NaN). What the Python language fixes is
  written out: a float division raises ZeroDivisionError exactly when the divisor
  compares equal to zero, \<open>max\<close> and \<open>min\<close> are comparisons, indexing an empty list
  raises IndexError. What the platform computes (sums, products, quotients, powers,
  rounding to two decimals, conversions) is left to \<open>A\<close>. A theorem stated for every
  \<open>A\<close> holds for the doubles of the platform; the arithmetic \<open>exact\<close>, in which floats
  are real numbers and nothing rounds or overflows, is one instance, used to evaluate
  the model on concrete requests. An exception is the \<open>Inl\<close> of a sum type.
\<close>

subsection \<open>Exceptions, numbers and float arithmetic\<close>

datatype exn = ZeroDivisionError | IndexError | OverflowError | ValueError | OSError

definition bindE :: "exn + 'a \<Rightarrow> ('a \<Rightarrow> exn + 'b) \<Rightarrow> exn + 'b" where
  "bindE m f = (case m of Inl e \<Rightarrow> Inl e | Inr x \<Rightarrow> f x)"

text \<open>A JSON number as Python holds it: an \<open>int\<close> or a \<open>float\<close>.\<close>

datatype 'f num = NInt int | NFloat 'f

text \<open>
  The operations on floats: \<open>f_lit\<close> is the float nearest to a number (a literal of the
  source, or a small integer converted by \<open>float\<close>); \<open>f_of_int\<close> is \<open>float\<close> of an
  arbitrary \<open>int\<close> and \<open>f_to_int\<close> is \<open>int\<close> of a float, both of which can raise;
  \<open>f_quot x y\<close> is \<open>x / y\<close> for a \<open>y\<close> that is not zero; \<open>f_pow x n\<close> is \<open>x ** n\<close> for an
  \<open>int\<close> \<open>n\<close>, which can raise; \<open>f_gt x y\<close> is \<open>x > y\<close>; \<open>f_round2 x\<close> is \<open>round(x, 2)\<close>.
\<close>

record 'f arith =
  f_lit :: "real \<Rightarrow> 'f"
  f_of_int :: "int \<Rightarrow> exn + 'f"
  f_to_int :: "'f \<Rightarrow> exn + int"
  f_add :: "'f \<Rightarrow> 'f \<Rightarrow> 'f"
  f_sub :: "'f \<Rightarrow> 'f \<Rightarrow> 'f"
  f_mul :: "'f \<Rightarrow> 'f \<Rightarrow> 'f"
  f_quot :: "'f \<Rightarrow> 'f \<Rightarrow> 'f"
  f_is_zero :: "'f \<Rightarrow> bool"
  f_pow :: "'f \<Rightarrow> int \<Rightarrow> exn + 'f"
  f_gt :: "'f \<Rightarrow> 'f \<Rightarrow> bool"
  f_round2 :: "'f \<Rightarrow> 'f"

text \<open>Python \<open>a / b\<close> on floats.\<close>

definition fdiv :: "'f arith \<Rightarrow> 'f \<Rightarrow> 'f \<Rightarrow> exn + 'f" where
  "fdiv A a b = (if f_is_zero A b then Inl ZeroDivisionError else Inr (f_quot A a b))"

text \<open>Python \<open>max(a, b)\<close> and \<open>min(a, b)\<close>: the second argument when it compares beyond the first.\<close>

definition fmax :: "'f arith \<Rightarrow> 'f \<Rightarrow> 'f \<Rightarrow> 'f" where
  "fmax A a b = (if f_gt A b a then b else a)"

definition fmin :: "'f arith \<Rightarrow> 'f \<Rightarrow> 'f \<Rightarrow> 'f" where
  "fmin A a b = (if f_gt A a b then b else a)"

text \<open>Python \<open>float(x)\<close> and \<open>int(x)\<close> on a number.\<close>

definition to_float :: "'f arith \<Rightarrow> 'f num \<Rightarrow> exn + 'f" where
  "to_float A x = (case x of NInt i \<Rightarrow> f_of_int A i | NFloat v \<Rightarrow> Inr v)"

definition to_int :: "'f arith \<Rightarrow> 'f num \<Rightarrow> exn + int" where
  "to_int A x = (case x of NInt i \<Rightarrow> Inr i | NFloat v \<Rightarrow> f_to_int A v)"

text \<open>Python \<open>xs[-1]\<close>.\<close>

definition py_last :: "'a list \<Rightarrow> exn + 'a" where
  "py_last xs = (if xs = [] then Inl IndexError else Inr (last xs))"

text \<open>A \<open>for\<close> loop over a list of values, threading a state; an exception ends it.\<close>

fun for_loop :: "('a \<Rightarrow> 'st \<Rightarrow> exn + 'st) \<Rightarrow> 'a list \<Rightarrow> 'st \<Rightarrow> exn + 'st" where
  "for_loop body [] st = Inr st"
| "for_loop body (t # ts) st =
     (case body t st of Inl e \<Rightarrow> Inl e | Inr st' \<Rightarrow> for_loop body ts st')"

subsection \<open>The exact arithmetic\<close>

text \<open>
  Floats as real numbers: no rounding, no overflow. \<open>x ** n\<close> raises only for a zero base
  and a negative exponent; \<open>round(x, 2)\<close> is to the nearest hundredth, ties to the even
  neighbour; \<open>int(x)\<close> truncates toward zero.
\<close>

definition fpow :: "real \<Rightarrow> int \<Rightarrow> exn + real" where
  "fpow x n = (if 0 \<le> n then Inr (x ^ nat n)
               else if x = 0 then Inl ZeroDivisionError
               else Inr (1 / x ^ nat (- n)))"

definition round_half_even :: "real \<Rightarrow> int" where
  "round_half_even y =
     (let f = \<lfloor>y\<rfloor>; d = y - of_int f
      in if d < 1 / 2 then f else if 1 / 2 < d then f + 1
         else if even f then f else f + 1)"

definition py_round2 :: "real \<Rightarrow> real" where
  "py_round2 x = of_int (round_half_even (x * 100)) / 100"

definition py_int :: "real \<Rightarrow> int" where
  "py_int x = (if 0 \<le> x then \<lfloor>x\<rfloor> else \<lceil>x\<rceil>)"

definition exact :: "real arith" where
  "exact = \<lparr> f_lit = (\<lambda>x. x),
             f_of_int = (\<lambda>i. Inr (of_int i)),
             f_to_int = (\<lambda>x. Inr (py_int x)),
             f_add = (\<lambda>x y. x + y),
             f_sub = (\<lambda>x y. x - y),
             f_mul = (\<lambda>x y. x * y),
             f_quot = (\<lambda>x y. x / y),
             f_is_zero = (\<lambda>x. x = 0),
             f_pow = fpow,
             f_gt = (\<lambda>x y. y < x),
             f_round2 = py_round2 \<rparr>"

subsection \<open>Request and normalized scenario\<close>

text \<open>
  An override mapping (\<open>Dict[str, Any]\<close>) is a map from keys to JSON numbers. The
  normalized scenario dict has a fixed set of keys and is a record; its \<open>wacc\<close> and
  \<open>horizon\<close> entries are the fields \<open>s_wacc\<close> and \<open>s_horizon\<close>. The entries that
  \<open>_pct\<close> fills are numbers, since \<open>_pct\<close> returns an \<open>int\<close> argument that is not above
  1 as it is; the others have gone through \<open>float\<close> or \<open>int\<close>.
\<close>

type_synonym 'f overrides = "string \<rightharpoonup> 'f num"

record 'f Scenarios =
  base :: "'f overrides"
  bull :: "'f overrides option"
  bear :: "'f overrides option"

record 'f DcfRequest =
  ticker :: string
  horizon :: int
  wacc :: "'f option"
  scenarios :: "'f Scenarios option"

record 'f scenario =
  revenue0 :: 'f
  growth :: "'f num"
  growth_decay :: "'f num"
  ebit_margin :: "'f num"
  tax_rate :: "'f num"
  reinvestment_rate :: "'f num"
  terminal_g :: "'f num"
  s_wacc :: "'f num"
  shares_out :: 'f
  net_debt :: 'f
  s_horizon :: int

text \<open>\<open>x > 1\<close> and \<open>x / 100.0\<close> on a number.\<close>

definition gt_one :: "'f arith \<Rightarrow> 'f num \<Rightarrow> bool" where
  "gt_one A x = (case x of NInt i \<Rightarrow> 1 < i | NFloat v \<Rightarrow> f_gt A v (f_lit A 1))"

definition div100 :: "'f arith \<Rightarrow> 'f num \<Rightarrow> exn + 'f" where
  "div100 A x = bindE (to_float A x) (\<lambda>v. fdiv A v (f_lit A 100))"

definition pct :: "'f arith \<Rightarrow> 'f num option \<Rightarrow> 'f \<Rightarrow> exn + 'f num" where
  "pct A x dflt =
     (case x of None \<Rightarrow> Inr (NFloat dflt)
      | Some v \<Rightarrow> if gt_one A v then bindE (div100 A v) (\<lambda>q. Inr (NFloat q)) else Inr v)"

text \<open>\<open>o.get(k, d)\<close>.\<close>

definition get_or :: "'f overrides \<Rightarrow> string \<Rightarrow> 'f num \<Rightarrow> 'f num" where
  "get_or ov k d = (case ov k of None \<Rightarrow> d | Some v \<Rightarrow> v)"

definition scenario_defaults ::
  "'f arith \<Rightarrow> 'f overrides option \<Rightarrow> int \<Rightarrow> 'f \<Rightarrow> exn + 'f scenario" where
  "scenario_defaults A overrides hor r =
     (let ov = (case overrides of None \<Rightarrow> Map.empty | Some m \<Rightarrow> m)
      in bindE (to_float A (get_or ov ''revenue0'' (NFloat (f_lit A 1000)))) (\<lambda>v_revenue0.
         bindE (pct A (ov ''growth'') (f_lit A (10 / 100))) (\<lambda>v_growth.
         bindE (pct A (ov ''growth_decay'') (f_lit A (2 / 100))) (\<lambda>v_growth_decay.
         bindE (pct A (ov ''ebit_margin'') (f_lit A (20 / 100))) (\<lambda>v_ebit_margin.
         bindE (pct A (ov ''tax_rate'') (f_lit A (21 / 100))) (\<lambda>v_tax_rate.
         bindE (pct A (ov ''reinvestment_rate'') (f_lit A (35 / 100))) (\<lambda>v_reinvestment_rate.
         bindE (pct A (ov ''terminal_g'') (f_lit A (2 / 100))) (\<lambda>v_terminal_g.
         bindE (pct A (ov ''wacc'') r) (\<lambda>v_wacc.
         bindE (to_float A (get_or ov ''shares_out'' (NFloat (f_lit A 0)))) (\<lambda>v_shares_out.
         bindE (to_float A (get_or ov ''net_debt'' (NFloat (f_lit A 0)))) (\<lambda>v_net_debt.
         bindE (to_int A (get_or ov ''horizon'' (NInt hor))) (\<lambda>v_horizon.
         Inr \<lparr> revenue0 = v_revenue0, growth = v_growth, growth_decay = v_growth_decay,
               ebit_margin = v_ebit_margin, tax_rate = v_tax_rate,
               reinvestment_rate = v_reinvestment_rate, terminal_g = v_terminal_g,
               s_wacc = v_wacc, shares_out = v_shares_out, net_debt = v_net_debt,
               s_horizon = v_horizon \<rparr>))))))))))))"

text \<open>The keys that \<open>scenario_defaults\<close> passes through \<open>pct\<close>.\<close>

definition rate_keys :: "string list" where
  "rate_keys = [''growth'', ''growth_decay'', ''ebit_margin'', ''tax_rate'',
                ''reinvestment_rate'', ''terminal_g'', ''wacc'']"

subsection \<open>Cash-flow projection\<close>

record 'f row =
  year :: 'f
  revenue :: 'f
  ebit :: 'f
  nopat :: 'f
  reinvestment :: 'f
  fcf :: 'f
  discountFactor :: 'f
  pv_fcf :: 'f
  cum_pv :: 'f

text \<open>The locals that \<open>_project_cash_flows\<close> reads from the scenario (lines 61 to 69).\<close>

record 'f locals =
  p_N :: int
  p_rev :: 'f
  p_g :: 'f
  p_g_terminal :: 'f
  p_g_decay :: 'f
  p_margin :: 'f
  p_tax :: 'f
  p_reinv :: 'f
  p_r :: 'f

definition read_locals :: "'f arith \<Rightarrow> 'f scenario \<Rightarrow> exn + 'f locals" where
  "read_locals A s =
     bindE (to_float A (growth s)) (\<lambda>g.
     bindE (to_float A (terminal_g s)) (\<lambda>g_terminal.
     bindE (to_float A (growth_decay s)) (\<lambda>g_decay.
     bindE (to_float A (ebit_margin s)) (\<lambda>margin.
     bindE (to_float A (tax_rate s)) (\<lambda>tax.
     bindE (to_float A (reinvestment_rate s)) (\<lambda>reinv.
     bindE (to_float A (s_wacc s)) (\<lambda>r.
     Inr \<lparr> p_N = s_horizon s, p_rev = revenue0 s, p_g = g, p_g_terminal = g_terminal,
           p_g_decay = g_decay, p_margin = margin, p_tax = tax, p_reinv = reinv,
           p_r = r \<rparr>)))))))"

text \<open>The closure \<open>next_growth\<close>, with its captured variables as parameters.\<close>

definition next_growth :: "'f arith \<Rightarrow> 'f \<Rightarrow> 'f \<Rightarrow> 'f \<Rightarrow> 'f" where
  "next_growth A g_terminal g_decay cur =
     (if f_gt A cur g_terminal then fmax A g_terminal (f_sub A cur g_decay)
      else fmin A g_terminal (f_add A cur g_decay))"

text \<open>The variables the projection loop updates.\<close>

record 'f loop_state =
  l_rev :: 'f
  l_g :: 'f
  l_pv_sum :: 'f
  l_flows :: "'f row list"

definition loop_body :: "'f arith \<Rightarrow> 'f locals \<Rightarrow> int \<Rightarrow> 'f loop_state \<Rightarrow> exn + 'f loop_state" where
  "loop_body A p t st =
     (let rev' = f_mul A (l_rev st) (f_add A (f_lit A 1) (l_g st));
          ebit' = f_mul A rev' (p_margin p);
          nopat' = f_mul A ebit' (f_sub A (f_lit A 1) (p_tax p));
          reinvest = fmax A (f_lit A 0) (f_mul A nopat' (p_reinv p));
          fcf' = f_sub A nopat' reinvest
      in bindE (f_pow A (f_add A (f_lit A 1) (p_r p)) t) (\<lambda>pw.
         bindE (fdiv A (f_lit A 1) pw) (\<lambda>df.
           (let pv_fcf' = f_mul A fcf' df;
                pv_sum' = f_add A (l_pv_sum st) pv_fcf'
            in Inr \<lparr> l_rev = rev',
                     l_g = next_growth A (p_g_terminal p) (p_g_decay p) (l_g st),
                     l_pv_sum = pv_sum',
                     l_flows = l_flows st @
                       [\<lparr> year = f_lit A (of_int t), revenue = rev', ebit = ebit',
                          nopat = nopat', reinvestment = reinvest, fcf = fcf',
                          discountFactor = df, pv_fcf = pv_fcf', cum_pv = pv_sum' \<rparr>] \<rparr>))))"

definition loop_init :: "'f arith \<Rightarrow> 'f locals \<Rightarrow> 'f loop_state" where
  "loop_init A p = \<lparr> l_rev = p_rev p, l_g = p_g p, l_pv_sum = f_lit A 0, l_flows = [] \<rparr>"

definition project_cash_flows ::
  "'f arith \<Rightarrow> 'f scenario \<Rightarrow> exn + ('f row list \<times> 'f \<times> 'f)" where
  "project_cash_flows A s =
     bindE (read_locals A s) (\<lambda>p.
     bindE (for_loop (loop_body A p) [1..p_N p] (loop_init A p)) (\<lambda>st.
     bindE (py_last (l_flows st)) (\<lambda>lst.
       (let nopat_next = f_mul A (nopat lst) (f_add A (f_lit A 1) (p_g_terminal p));
            fcf_next = f_mul A nopat_next (f_sub A (f_lit A 1) (p_reinv p))
        in bindE (fdiv A fcf_next
                    (fmax A (f_lit A (1 / 1000000)) (f_sub A (p_r p) (p_g_terminal p)))) (\<lambda>tv.
           bindE (f_pow A (f_add A (f_lit A 1) (p_r p)) (p_N p)) (\<lambda>pw.
           bindE (fdiv A tv pw) (\<lambda>pv_tv.
           Inr (l_flows st, tv, pv_tv))))))))"

subsection \<open>The endpoint\<close>

record 'f sens_point =
  sp_wacc :: 'f
  sp_terminalG :: 'f
  sp_value :: 'f

text \<open>The body of the two nested sensitivity loops, for one \<open>w\<close> and one \<open>g_i\<close>.\<close>

definition sens_cell ::
  "'f arith \<Rightarrow> 'f \<Rightarrow> 'f \<Rightarrow> int \<Rightarrow> int \<Rightarrow> real \<Rightarrow> exn + 'f sens_point" where
  "sens_cell A fcf_next cum_pv_last N w g_i =
     bindE (fdiv A (f_lit A g_i) (f_lit A 100)) (\<lambda>g.
     bindE (fdiv A (f_lit A (of_int w)) (f_lit A 100)) (\<lambda>rr.
     bindE (fdiv A fcf_next (fmax A (f_lit A (1 / 1000000)) (f_sub A rr g))) (\<lambda>tv.
     bindE (f_pow A (f_add A (f_lit A 1) rr) N) (\<lambda>pw.
     bindE (fdiv A tv pw) (\<lambda>pv_tv.
     Inr \<lparr> sp_wacc = f_lit A (of_int w), sp_terminalG = f_lit A g_i,
           sp_value = f_round2 A (f_add A cum_pv_last pv_tv) \<rparr>)))))"

definition grid_g :: "real list" where
  "grid_g = [0, 1 / 2, 1, 3 / 2, 2, 5 / 2]"

definition sensitivity_loop ::
  "'f arith \<Rightarrow> 'f \<Rightarrow> 'f \<Rightarrow> int \<Rightarrow> exn + 'f sens_point list" where
  "sensitivity_loop A fcf_next cum_pv_last N =
     for_loop (\<lambda>w acc.
        for_loop (\<lambda>g_i acc'.
           bindE (sens_cell A fcf_next cum_pv_last N w g_i) (\<lambda>c. Inr (acc' @ [c])))
          grid_g acc) [6..12] []"

record 'f assumptions_t =
  a_ticker :: string
  a_horizon :: int
  a_wacc :: 'f
  a_notes :: string

text \<open>
  The local variables of \<open>dcf\<close> when the valuation is done (line 227), before the
  workbook is written.
\<close>

record 'f core =
  v_assumptions :: "'f assumptions_t"
  v_pv_by_scenario :: "string \<rightharpoonup> 'f"
  v_sensitivity :: "'f sens_point list"
  v_flows_by :: "string \<rightharpoonup> 'f row list"

text \<open>The locals \<open>r\<close>, \<open>sc\<close> and \<open>s_base\<close> of \<open>dcf\<close>, as functions of the request.\<close>

definition r_of :: "'f arith \<Rightarrow> 'f DcfRequest \<Rightarrow> exn + 'f" where
  "r_of A req =
     bindE (pct A (map_option NFloat (wacc req)) (f_lit A (10 / 100))) (\<lambda>x. to_float A x)"

definition sc_of :: "'f DcfRequest \<Rightarrow> 'f Scenarios" where
  "sc_of req = (case scenarios req of
                  None \<Rightarrow> \<lparr> base = Map.empty, bull = None, bear = None \<rparr>
                | Some x \<Rightarrow> x)"

definition s_base_of :: "'f arith \<Rightarrow> 'f DcfRequest \<Rightarrow> exn + 'f scenario" where
  "s_base_of A req =
     bindE (r_of A req) (\<lambda>r.
       scenario_defaults A (Some (base (sc_of req))) (max 1 (horizon req)) r)"

text \<open>
  Lines 175 and 176: the normalized bull or bear scenario when overrides are supplied.
\<close>

definition optional_defaults ::
  "'f arith \<Rightarrow> 'f overrides option \<Rightarrow> int \<Rightarrow> 'f \<Rightarrow> exn + 'f scenario option" where
  "optional_defaults A ovs N r =
     (case ovs of None \<Rightarrow> Inr None
      | Some b \<Rightarrow> bindE (scenario_defaults A (Some b) N r) (\<lambda>s. Inr (Some s)))"

definition dcf_core :: "'f arith \<Rightarrow> 'f DcfRequest \<Rightarrow> exn + 'f core" where
  "dcf_core A req =
     bindE (r_of A req) (\<lambda>r.
     (let N = max 1 (horizon req);
          sc = sc_of req
      in bindE (scenario_defaults A (Some (base sc)) N r) (\<lambda>s_base.
         bindE (optional_defaults A (bull sc) N r) (\<lambda>s_bull.
         bindE (optional_defaults A (bear sc) N r) (\<lambda>s_bear.
         bindE (project_cash_flows A s_base) (\<lambda>(base_flows, base_tv, base_pv_tv).
         bindE (py_last base_flows) (\<lambda>base_last.
         (let ev_base = f_add A (cum_pv base_last) base_pv_tv;
              flows_by1 = [''base'' \<mapsto> base_flows];
              pv1 = [''base'' \<mapsto> f_round2 A ev_base]
          in bindE
               (case s_bull of
                  Some sb \<Rightarrow>
                    bindE (project_cash_flows A sb) (\<lambda>(bull_flows, bull_tv, bull_pv_tv).
                    bindE (py_last bull_flows) (\<lambda>bull_last.
                    Inr (flows_by1(''bull'' \<mapsto> bull_flows),
                         pv1(''bull'' \<mapsto> f_round2 A (f_add A (cum_pv bull_last) bull_pv_tv)))))
                | None \<Rightarrow>
                    Inr (flows_by1,
                         pv1(''bull'' \<mapsto> f_round2 A (f_mul A ev_base (f_lit A (12 / 10))))))
               (\<lambda>(flows_by2, pv2).
             bindE
               (case s_bear of
                  Some sb \<Rightarrow>
                    bindE (project_cash_flows A sb) (\<lambda>(bear_flows, bear_tv, bear_pv_tv).
                    bindE (py_last bear_flows) (\<lambda>bear_last.
                    Inr (flows_by2(''bear'' \<mapsto> bear_flows),
                         pv2(''bear'' \<mapsto> f_round2 A (f_add A (cum_pv bear_last) bear_pv_tv)))))
                | None \<Rightarrow>
                    Inr (flows_by2,
                         pv2(''bear'' \<mapsto> f_round2 A (f_mul A ev_base (f_lit A (8 / 10))))))
               (\<lambda>(flows_by3, pv3).
             bindE (to_float A (terminal_g s_base)) (\<lambda>base_g.
             bindE (to_float A (reinvestment_rate s_base)) (\<lambda>reinv.
             (let nopat_next = f_mul A (nopat base_last) (f_add A (f_lit A 1) base_g);
                  fcf_next = f_mul A nopat_next (f_sub A (f_lit A 1) reinv)
              in bindE (sensitivity_loop A fcf_next (cum_pv base_last) N) (\<lambda>sens.
                 Inr \<lparr> v_assumptions =
                         \<lparr> a_ticker = ticker req, a_horizon = N,
                           a_wacc = f_round2 A (f_mul A r (f_lit A 100)),
                           a_notes = ''Fundamentals-driven DCF using simple revenue->EBIT->NOPAT and reinvestment policy.'' \<rparr>,
                       v_pv_by_scenario = pv3,
                       v_sensitivity = sens,
                       v_flows_by = flows_by3 \<rparr>))))))))))))))"

text \<open>
  What the endpoint reads from outside the request: the clock, whether openpyxl was
  imported, and whether creating the directory and saving the workbook succeed.
\<close>

record env =
  now_ms :: int
  has_openpyxl :: bool
  makedirs_ok :: bool
  save_ok :: bool

text \<open>Python \<open>str\<close> of an int, which the f-string applies to the timestamp.\<close>

definition digit_char :: "nat \<Rightarrow> char" where
  "digit_char d = ''0123456789'' ! d"

fun str_nat :: "nat \<Rightarrow> string" where
  "str_nat n = (if n < 10 then [digit_char n]
                else str_nat (n div 10) @ [digit_char (n mod 10)])"

declare str_nat.simps [simp del]

definition str_int :: "int \<Rightarrow> string" where
  "str_int i = (if i < 0 then CHR ''-'' # str_nat (nat (- i)) else str_nat (nat i))"

text \<open>
  \<open>_write_workbook\<close>: only its outcome is modelled (no workbook, an exception, or the
  path of the saved file), not the sheets it writes.
\<close>

definition write_workbook :: "env \<Rightarrow> string \<Rightarrow> exn + string option" where
  "write_workbook ev base_dir =
     (if \<not> has_openpyxl ev then Inr None
      else if \<not> save_ok ev then Inl OSError
      else Inr (Some (base_dir @ ''/dcf.xlsx'')))"

record 'f response =
  assumptions :: "'f assumptions_t"
  pvByScenario :: "string \<rightharpoonup> 'f"
  sensitivity :: "'f sens_point list"
  files :: "string list"
  explain :: string

definition dcf :: "'f arith \<Rightarrow> env \<Rightarrow> 'f DcfRequest \<Rightarrow> exn + 'f response" where
  "dcf A ev req =
     (case dcf_core A req of Inl e \<Rightarrow> Inl e | Inr c \<Rightarrow>
      (let base_dir = ''/tmp/madlab-dcf-'' @ str_int (now_ms ev);
           files' = (if \<not> makedirs_ok ev then []
                     else (case write_workbook ev base_dir of Inl e \<Rightarrow> []
                           | Inr None \<Rightarrow> []
                           | Inr (Some xlsx) \<Rightarrow> [xlsx]))
       in Inr \<lparr> assumptions = v_assumptions c,
                pvByScenario = v_pv_by_scenario c,
                sensitivity = v_sensitivity c,
                files = files',
                explain = ''DCF computed with fundamentals-based cash flow projection and Gordon terminal value.'' \<rparr>))"

subsection \<open>The sensitivity cell as the specification words it\<close>

text \<open>
  Section 4.5 of the specification: for each cell, \<open>nopat_next\<close> and \<open>fcf_next\<close> are
  recomputed as in section 4.3 with the grid's terminal growth, the terminal value is
  discounted at the grid's wacc over \<open>horizon\<close> years and added to the base scenario's
  final cumulative present value. This definition follows those words, not the code, in
  exact arithmetic.
\<close>

definition spec_sens_value :: "real row \<Rightarrow> real \<Rightarrow> int \<Rightarrow> int \<Rightarrow> real \<Rightarrow> real" where
  "spec_sens_value lst reinv N w g_i =
     (let g = g_i / 100;
          rr = of_int w / 100;
          nopat_next = nopat lst * (1 + g);
          fcf_next = nopat_next * (1 - reinv);
          tv = fcf_next / max (1 / 1000000) (rr - g);
          pv_tv = tv / (1 + rr) ^ nat N
      in py_round2 (cum_pv lst + pv_tv))"

subsection \<open>Example requests\<close>

definition env0 :: env where
  "env0 = \<lparr> now_ms = 1700000000000, has_openpyxl = True, makedirs_ok = True, save_ok = True \<rparr>"

definition env1 :: env where
  "env1 = \<lparr> now_ms = 1700000000001, has_openpyxl = True, makedirs_ok = True, save_ok = True \<rparr>"

text \<open>All defaults: \<open>{ticker: "ACME", horizon: h, wacc: 10, scenarios: {base: {}}}\<close>.\<close>

definition req_default :: "int \<Rightarrow> real DcfRequest" where
  "req_default h = \<lparr> ticker = ''ACME'', horizon = h, wacc = Some 10,
                     scenarios = Some \<lparr> base = Map.empty, bull = None, bear = None \<rparr> \<rparr>"

text \<open>\<open>{ticker: "ACME", horizon: 1, wacc: -1}\<close>.\<close>

definition req_wacc_minus_one :: "real DcfRequest" where
  "req_wacc_minus_one = \<lparr> ticker = ''ACME'', horizon = 1, wacc = Some (- 1), scenarios = None \<rparr>"

text \<open>\<open>{ticker: "ACME", horizon: 5, scenarios: {base: {horizon: 0}}}\<close>.\<close>

definition req_base_horizon_zero :: "'f DcfRequest" where
  "req_base_horizon_zero =
     \<lparr> ticker = ''ACME'', horizon = 5, wacc = None,
       scenarios = Some \<lparr> base = [''horizon'' \<mapsto> NInt 0], bull = None, bear = None \<rparr> \<rparr>"

text \<open>
  A request whose base enterprise value is its \<open>revenue0\<close>: no growth, full margin, no
  tax, no reinvestment, no terminal growth, a wacc of 1 (taken as the decimal 1.0), over
  \<open>h\<close> years. Every operation on it is exact in binary floating point as well.
\<close>

definition req_plain :: "real \<Rightarrow> int \<Rightarrow> real DcfRequest" where
  "req_plain rev0 h =
     \<lparr> ticker = ''ACME'', horizon = h, wacc = Some 1,
       scenarios = Some \<lparr> base = [''revenue0'' \<mapsto> NFloat rev0, ''growth'' \<mapsto> NInt 0,
                                   ''ebit_margin'' \<mapsto> NInt 1, ''tax_rate'' \<mapsto> NInt 0,
                                   ''reinvestment_rate'' \<mapsto> NInt 0, ''terminal_g'' \<mapsto> NInt 0],
                          bull = None, bear = None \<rparr> \<rparr>"

text \<open>That request with \<open>revenue0 = 100.024\<close> and one year.\<close>

definition req_unit :: "real DcfRequest" where
  "req_unit = req_plain (100024 / 1000) 1"

text \<open>\<open>{ticker: "ACME", horizon: 2, wacc: -0.5}\<close>.\<close>

definition req_negative_wacc :: "real DcfRequest" where
  "req_negative_wacc = \<lparr> ticker = ''ACME'', horizon = 2, wacc = Some (- 1 / 2), scenarios = None \<rparr>"


text \<open>\<open>{ticker: "ACME", horizon: 2, scenarios: {base: {growth_decay: -0.02}}}\<close>.\<close>

definition req_negative_decay :: "real DcfRequest" where
  "req_negative_decay =
     \<lparr> ticker = ''ACME'', horizon = 2, wacc = None,
       scenarios = Some \<lparr> base = [''growth_decay'' \<mapsto> NFloat (- 2 / 100)],
                          bull = None, bear = None \<rparr> \<rparr>"

text \<open>The locals of the base projection of a request, in exact arithmetic.\<close>

definition base_locals :: "real DcfRequest \<Rightarrow> real locals" where
  "base_locals req = projr (read_locals exact (projr (s_base_of exact req)))"

text \<open>The base projection of a request, in exact arithmetic.\<close>

definition base_projection :: "real DcfRequest \<Rightarrow> exn + (real row list \<times> real \<times> real)" where
  "base_projection req = project_cash_flows exact (projr (s_base_of exact req))"

text \<open>\<open>{ticker: "ACME", horizon: 2, wacc: 0}\<close>.\<close>

definition req_zero_wacc :: "real DcfRequest" where
  "req_zero_wacc = \<lparr> ticker = ''ACME'', horizon = 2, wacc = Some 0, scenarios = None \<rparr>"

section \<open>Properties\<close>

subsection \<open>Basic facts\<close>

lemma bindE_Inr [simp]: "bindE (Inr x) f = f x"
  by (simp add: bindE_def)

lemma bindE_Inl [simp]: "bindE (Inl e) f = Inl e"
  by (simp add: bindE_def)

lemma bindE_eq_Inr: "(bindE m f = Inr y) = (\<exists>x. m = Inr x \<and> f x = Inr y)"
  by (cases m) simp_all

lemma exact_simps [simp]:
  "f_lit exact x = x"
  "f_of_int exact i = Inr (of_int i)"
  "f_to_int exact x = Inr (py_int x)"
  "f_add exact x y = x + y"
  "f_sub exact x y = x - y"
  "f_mul exact x y = x * y"
  "f_quot exact x y = x / y"
  "f_is_zero exact x = (x = 0)"
  "f_pow exact = fpow"
  "f_gt exact x y = (y < x)"
  "f_round2 exact = py_round2"
  by (simp_all add: exact_def)

lemma fmax_exact [simp]: "fmax exact a b = max a b"
  by (simp add: fmax_def max_def)

lemma fmin_exact [simp]: "fmin exact a b = min a b"
  by (auto simp: fmin_def min_def)

lemma fdiv_eq_Inr: "(fdiv A a b = Inr q) = (\<not> f_is_zero A b \<and> q = f_quot A a b)"
  by (auto simp: fdiv_def)

lemma isl_projl_eq: "isl x \<Longrightarrow> projl x = e \<Longrightarrow> x = Inl e"
  by (cases x) auto

lemma projr_collapse: "\<not> isl x \<Longrightarrow> x = Inr (projr x)"
  by simp

lemma dcf_core_Inl: "dcf_core A req = Inl e \<Longrightarrow> dcf A ev req = Inl e"
  by (simp add: dcf_def)

lemma dcf_Inr_core:
  "dcf A ev req = Inr res \<Longrightarrow>
     \<exists>c. dcf_core A req = Inr c \<and> assumptions res = v_assumptions c
        \<and> pvByScenario res = v_pv_by_scenario c \<and> sensitivity res = v_sensitivity c"
  by (cases "dcf_core A req") (auto simp: dcf_def Let_def)

lemma dcf_of_core:
  assumes "dcf_core A req = Inr c"
  shows "\<not> isl (dcf A ev req)"
    and "assumptions (projr (dcf A ev req)) = v_assumptions c"
    and "pvByScenario (projr (dcf A ev req)) = v_pv_by_scenario c"
    and "sensitivity (projr (dcf A ev req)) = v_sensitivity c"
  using assms by (simp_all add: dcf_def Let_def)

subsection \<open>Normalization\<close>

lemma scenario_defaults_fields:
  assumes "scenario_defaults A (Some ov) N r = Inr s"
  shows "pct A (ov ''growth'') (f_lit A (10 / 100)) = Inr (growth s)"
    "pct A (ov ''growth_decay'') (f_lit A (2 / 100)) = Inr (growth_decay s)"
    "pct A (ov ''ebit_margin'') (f_lit A (20 / 100)) = Inr (ebit_margin s)"
    "pct A (ov ''tax_rate'') (f_lit A (21 / 100)) = Inr (tax_rate s)"
    "pct A (ov ''reinvestment_rate'') (f_lit A (35 / 100)) = Inr (reinvestment_rate s)"
    "pct A (ov ''terminal_g'') (f_lit A (2 / 100)) = Inr (terminal_g s)"
    "pct A (ov ''wacc'') r = Inr (s_wacc s)"
  using assms
  by (clarsimp simp: scenario_defaults_def Let_def bindE_eq_Inr)+

lemma pct_percent_decimal:
  assumes "gt_one A v" "div100 A v = Inr q" "\<not> f_gt A q (f_lit A 1)"
  shows "pct A (Some v) d = pct A (Some (NFloat q)) d"
  using assms by (simp add: pct_def gt_one_def)

lemma scenario_defaults_percent_decimal:
  assumes k: "k \<in> set rate_keys" and v: "gt_one A v" "div100 A v = Inr q"
    and q: "\<not> f_gt A q (f_lit A 1)"
  shows "scenario_defaults A (Some (ov(k \<mapsto> v))) N r
          = scenario_defaults A (Some (ov(k \<mapsto> NFloat q))) N r"
proof -
  note p = pct_percent_decimal [OF v q]
  from k have "k = ''growth'' \<or> k = ''growth_decay'' \<or> k = ''ebit_margin''
    \<or> k = ''tax_rate'' \<or> k = ''reinvestment_rate'' \<or> k = ''terminal_g'' \<or> k = ''wacc''"
    by (simp add: rate_keys_def)
  then show ?thesis
    by (elim disjE) (simp_all add: scenario_defaults_def get_or_def p)
qed

subsection \<open>The projection loop\<close>

text \<open>
  One iteration appends one row and steps the growth rate. The rows of a completed loop
  carry the years and the discount factors of the values iterated over.
\<close>

lemma loop_body_Inr:
  assumes "loop_body A p t st = Inr st'"
  shows "l_g st' = next_growth A (p_g_terminal p) (p_g_decay p) (l_g st)"
    and "\<exists>rw pw. l_flows st' = l_flows st @ [rw] \<and> year rw = f_lit A (of_int t)
            \<and> f_pow A (f_add A (f_lit A 1) (p_r p)) t = Inr pw \<and> \<not> f_is_zero A pw
            \<and> discountFactor rw = f_quot A (f_lit A 1) pw"
  using assms
  by (auto simp: loop_body_def Let_def bindE_eq_Inr fdiv_eq_Inr)

lemma loop_growth:
  "for_loop (loop_body A p) ts st = Inr st' \<Longrightarrow>
     l_g st' = (next_growth A (p_g_terminal p) (p_g_decay p) ^^ length ts) (l_g st)"
proof (induction ts arbitrary: st)
  case Nil
  then show ?case by simp
next
  case (Cons t ts)
  then obtain st1 where b: "loop_body A p t st = Inr st1"
    and r: "for_loop (loop_body A p) ts st1 = Inr st'"
    by (auto split: sum.splits)
  show ?case
    using Cons.IH [OF r] loop_body_Inr(1) [OF b] by (simp add: funpow_swap1)
qed

lemma loop_rows:
  "for_loop (loop_body A p) ts st = Inr st' \<Longrightarrow>
     \<exists>rows. l_flows st' = l_flows st @ rows
       \<and> list_all2 (\<lambda>t rw. year rw = f_lit A (of_int t)
            \<and> (\<exists>pw. f_pow A (f_add A (f_lit A 1) (p_r p)) t = Inr pw \<and> \<not> f_is_zero A pw
                  \<and> discountFactor rw = f_quot A (f_lit A 1) pw)) ts rows"
proof (induction ts arbitrary: st)
  case Nil
  then show ?case by simp
next
  case (Cons t ts)
  then obtain st1 where b: "loop_body A p t st = Inr st1"
    and r: "for_loop (loop_body A p) ts st1 = Inr st'"
    by (auto split: sum.splits)
  from loop_body_Inr(2) [OF b] obtain rw pw where
    rw: "l_flows st1 = l_flows st @ [rw]" "year rw = f_lit A (of_int t)"
        "f_pow A (f_add A (f_lit A 1) (p_r p)) t = Inr pw" "\<not> f_is_zero A pw"
        "discountFactor rw = f_quot A (f_lit A 1) pw"
    by blast
  from Cons.IH [OF r] obtain rows where
    rows: "l_flows st' = l_flows st1 @ rows"
          "list_all2 (\<lambda>t rw. year rw = f_lit A (of_int t)
            \<and> (\<exists>pw. f_pow A (f_add A (f_lit A 1) (p_r p)) t = Inr pw \<and> \<not> f_is_zero A pw
                  \<and> discountFactor rw = f_quot A (f_lit A 1) pw)) ts rows"
    by blast
  show ?case
    by (rule exI [of _ "rw # rows"]) (use rw rows in auto)
qed

lemma read_locals_Inr:
  assumes "read_locals A s = Inr p"
  shows "p_N p = s_horizon s" and "p_rev p = revenue0 s"
    and "to_float A (growth s) = Inr (p_g p)"
    and "to_float A (terminal_g s) = Inr (p_g_terminal p)"
    and "to_float A (growth_decay s) = Inr (p_g_decay p)"
    and "to_float A (reinvestment_rate s) = Inr (p_reinv p)"
    and "to_float A (s_wacc s) = Inr (p_r p)"
  using assms by (auto simp: read_locals_def bindE_eq_Inr)

lemma project_cash_flows_Inr:
  assumes "project_cash_flows A s = Inr (fl, tv, pv_tv)"
  shows "\<exists>p st pw. read_locals A s = Inr p
           \<and> for_loop (loop_body A p) [1..p_N p] (loop_init A p) = Inr st \<and> l_flows st = fl
           \<and> fl \<noteq> [] \<and> 1 \<le> p_N p
           \<and> \<not> f_is_zero A (fmax A (f_lit A (1 / 1000000)) (f_sub A (p_r p) (p_g_terminal p)))
           \<and> tv = f_quot A
                    (f_mul A (f_mul A (nopat (last fl)) (f_add A (f_lit A 1) (p_g_terminal p)))
                       (f_sub A (f_lit A 1) (p_reinv p)))
                    (fmax A (f_lit A (1 / 1000000)) (f_sub A (p_r p) (p_g_terminal p)))
           \<and> f_pow A (f_add A (f_lit A 1) (p_r p)) (p_N p) = Inr pw \<and> \<not> f_is_zero A pw
           \<and> pv_tv = f_quot A tv pw"
proof -
  from assms obtain p st lst where
    p: "read_locals A s = Inr p"
    and st: "for_loop (loop_body A p) [1..p_N p] (loop_init A p) = Inr st"
    and lst: "py_last (l_flows st) = Inr lst"
    and fl: "l_flows st = fl"
    by (auto simp: project_cash_flows_def Let_def bindE_eq_Inr)
  from lst fl have ne: "fl \<noteq> []" and l: "lst = last fl"
    by (auto simp: py_last_def split: if_splits)
  have h: "1 \<le> p_N p"
  proof (rule ccontr)
    assume "\<not> 1 \<le> p_N p"
    then have "[1..p_N p] = []" by simp
    with st fl have "fl = []" by (auto simp: loop_init_def)
    with ne show False by simp
  qed
  from assms p st lst l fl show ?thesis
    using ne h
    by (auto simp: project_cash_flows_def Let_def bindE_eq_Inr fdiv_eq_Inr)
qed

lemma project_cash_flows_rows:
  assumes "project_cash_flows A s = Inr (fl, tv, pv_tv)" and "read_locals A s = Inr p"
    and "i < length fl"
  shows "length fl = nat (s_horizon s)"
    and "year (fl ! i) = f_lit A (of_int (int i + 1))"
    and "\<exists>pw. f_pow A (f_add A (f_lit A 1) (p_r p)) (int i + 1) = Inr pw \<and> \<not> f_is_zero A pw
            \<and> discountFactor (fl ! i) = f_quot A (f_lit A 1) pw"
proof -
  from project_cash_flows_Inr [OF assms(1)] assms(2) obtain st where
    st: "for_loop (loop_body A p) [1..p_N p] (loop_init A p) = Inr st" "l_flows st = fl"
    by auto
  from loop_rows [OF st(1)] st(2) have
    rows: "list_all2 (\<lambda>t rw. year rw = f_lit A (of_int t)
            \<and> (\<exists>pw. f_pow A (f_add A (f_lit A 1) (p_r p)) t = Inr pw \<and> \<not> f_is_zero A pw
                  \<and> discountFactor rw = f_quot A (f_lit A 1) pw)) [1..p_N p] fl"
    by (auto simp: loop_init_def)
  from list_all2_lengthD [OF rows] show len: "length fl = nat (s_horizon s)"
    by (simp add: read_locals_Inr(1) [OF assms(2)])
  from assms(3) len have "1 + int i \<le> p_N p"
    by (simp add: read_locals_Inr(1) [OF assms(2)])
  then have nth: "[1..p_N p] ! i = int i + 1" by (simp add: nth_upto)
  from list_all2_nthD2 [OF rows assms(3)] nth
  show "year (fl ! i) = f_lit A (of_int (int i + 1))"
    and "\<exists>pw. f_pow A (f_add A (f_lit A 1) (p_r p)) (int i + 1) = Inr pw \<and> \<not> f_is_zero A pw
            \<and> discountFactor (fl ! i) = f_quot A (f_lit A 1) pw"
    by simp_all
qed

subsection \<open>The sensitivity loops\<close>

text \<open>
  A loop whose body appends one computed element per value collects one element per
  value; the two nested loops collect the grid row by row.
\<close>

lemma for_loop_collect_Inr:
  "for_loop (\<lambda>x acc. bindE (F x) (\<lambda>c. Inr (acc @ [c]))) xs acc = Inr r \<Longrightarrow>
     \<exists>cs. r = acc @ cs \<and> list_all2 (\<lambda>x c. F x = Inr c) xs cs"
proof (induction xs arbitrary: acc)
  case Nil
  then show ?case by simp
next
  case (Cons x xs)
  then obtain c where c: "F x = Inr c"
    and r: "for_loop (\<lambda>x acc. bindE (F x) (\<lambda>c. Inr (acc @ [c]))) xs (acc @ [c]) = Inr r"
    by (auto simp: bindE_eq_Inr split: sum.splits)
  from Cons.IH [OF r] obtain cs where "r = (acc @ [c]) @ cs" "list_all2 (\<lambda>x c. F x = Inr c) xs cs"
    by blast
  then show ?case
    by (intro exI [of _ "c # cs"]) (simp add: c)
qed

lemma for_loop_nested_Inr:
  assumes "for_loop body ws acc = Inr r"
    and "\<And>w acc r. body w acc = Inr r \<Longrightarrow> \<exists>cs. r = acc @ cs \<and> Q w cs"
  shows "\<exists>css. r = acc @ concat css \<and> list_all2 Q ws css"
  using assms(1)
proof (induction ws arbitrary: acc)
  case Nil
  then show ?case by simp
next
  case (Cons w ws)
  then obtain r1 where b: "body w acc = Inr r1" and r: "for_loop body ws r1 = Inr r"
    by (auto split: sum.splits)
  from assms(2) [OF b] obtain cs where cs: "r1 = acc @ cs" "Q w cs" by blast
  from Cons.IH [OF r] obtain css where "r = r1 @ concat css" "list_all2 Q ws css" by blast
  with cs show ?case
    by (intro exI [of _ "cs # css"]) simp
qed

lemma nth_concat_rows:
  "\<forall>xs\<in>set xss. length xs = n \<Longrightarrow> i < length xss \<Longrightarrow> j < n \<Longrightarrow>
     concat xss ! (i * n + j) = xss ! i ! j"
proof (induction xss arbitrary: i)
  case Nil
  then show ?case by simp
next
  case (Cons xs xss)
  show ?case
  proof (cases i)
    case 0
    with Cons.prems show ?thesis by (simp add: nth_append)
  next
    case (Suc k)
    with Cons.prems have "concat xss ! (k * n + j) = xss ! k ! j"
      by (intro Cons.IH) auto
    with Suc Cons.prems show ?thesis by (simp add: nth_append)
  qed
qed

lemma length_concat_rows:
  "\<forall>xs\<in>set xss. length xs = n \<Longrightarrow> length (concat xss) = length xss * n"
  by (induction xss) auto

lemma sens_cell_Inr:
  assumes "sens_cell A fcf_next cum_pv_last N w g_i = Inr cell"
  shows "\<exists>pw. f_pow A (f_add A (f_lit A 1) (f_quot A (f_lit A (of_int w)) (f_lit A 100))) N = Inr pw
           \<and> cell = \<lparr> sp_wacc = f_lit A (of_int w), sp_terminalG = f_lit A g_i,
                      sp_value = f_round2 A (f_add A cum_pv_last
                         (f_quot A
                            (f_quot A fcf_next
                               (fmax A (f_lit A (1 / 1000000))
                                  (f_sub A (f_quot A (f_lit A (of_int w)) (f_lit A 100))
                                           (f_quot A (f_lit A g_i) (f_lit A 100)))))
                            pw)) \<rparr>"
  using assms by (auto simp: sens_cell_def bindE_eq_Inr fdiv_eq_Inr)

lemma upto_6_12: "[6..12] = [6, 7, 8, 9, 10, 11, 12::int]"
  by (simp add: upto_rec1 [of 6] upto_rec1 [of 7] upto_rec1 [of 8] upto_rec1 [of 9]
      upto_rec1 [of 10] upto_rec1 [of 11] upto_rec1 [of 12])

lemma sensitivity_loop_Inr:
  assumes "sensitivity_loop A fcf_next cum_pv_last N = Inr sens"
  shows "length sens = 42"
    and "i < 7 \<Longrightarrow> j < 6 \<Longrightarrow>
           sens_cell A fcf_next cum_pv_last N (6 + int i) (grid_g ! j) = Inr (sens ! (i * 6 + j))"
proof -
  let ?Q = "\<lambda>w cs. list_all2 (\<lambda>g_i c. sens_cell A fcf_next cum_pv_last N w g_i = Inr c) grid_g cs"
  have inner: "\<exists>cs. r = acc @ cs \<and> ?Q w cs"
    if "for_loop (\<lambda>g_i acc'.
           bindE (sens_cell A fcf_next cum_pv_last N w g_i) (\<lambda>c. Inr (acc' @ [c])))
          grid_g acc = Inr r" for w acc r
    using that by (rule for_loop_collect_Inr)
  from for_loop_nested_Inr [OF assms [unfolded sensitivity_loop_def], of ?Q] inner
  obtain css where css: "sens = concat css" "list_all2 ?Q [6..12] css"
    by auto
  have len_css: "length css = 7"
    using list_all2_lengthD [OF css(2)] by (simp add: upto_6_12)
  have rows: "\<forall>cs\<in>set css. length cs = 6"
  proof
    fix cs assume "cs \<in> set css"
    then obtain k where "k < length css" "cs = css ! k" by (auto simp: in_set_conv_nth)
    with list_all2_nthD2 [OF css(2), of k] have "?Q ([6..12] ! k) cs" by simp
    then have "length grid_g = length cs" by (rule list_all2_lengthD)
    then show "length cs = 6" by (simp add: grid_g_def)
  qed
  show "length sens = 42"
    using length_concat_rows [OF rows] len_css css(1) by simp
  show "sens_cell A fcf_next cum_pv_last N (6 + int i) (grid_g ! j) = Inr (sens ! (i * 6 + j))"
    if i: "i < 7" and j: "j < 6"
  proof -
    have "sens ! (i * 6 + j) = css ! i ! j"
      unfolding css(1) using rows i j len_css by (intro nth_concat_rows) auto
    moreover from list_all2_nthD2 [OF css(2), of i] i len_css have "?Q ([6..12] ! i) (css ! i)"
      by simp
    moreover have "6 + int i \<le> 12" using i by simp
    then have "[6..12] ! i = 6 + int i" by (rule nth_upto)
    moreover have "j < length grid_g" using j by (simp add: grid_g_def)
    ultimately show ?thesis
      using list_all2_nthD [of "\<lambda>g_i c. sens_cell A fcf_next cum_pv_last N (6 + int i) g_i = Inr c"
                              grid_g "css ! i" j]
      by simp
  qed
qed

subsection \<open>What a returned valuation contains\<close>

lemma optional_defaults_None: "optional_defaults A None N r = Inr None"
  by (simp add: optional_defaults_def)

lemma dcf_core_Inr:
  assumes "dcf_core A req = Inr c"
  shows "\<exists>sb fl tv pv_tv base_g reinv.
           s_base_of A req = Inr sb
           \<and> project_cash_flows A sb = Inr (fl, tv, pv_tv) \<and> fl \<noteq> []
           \<and> to_float A (terminal_g sb) = Inr base_g
           \<and> to_float A (reinvestment_rate sb) = Inr reinv
           \<and> v_pv_by_scenario c ''base''
                = Some (f_round2 A (f_add A (cum_pv (last fl)) pv_tv))
           \<and> v_flows_by c ''base'' = Some fl
           \<and> sensitivity_loop A
                 (f_mul A (f_mul A (nopat (last fl)) (f_add A (f_lit A 1) base_g))
                    (f_sub A (f_lit A 1) reinv))
                 (cum_pv (last fl)) (max 1 (horizon req)) = Inr (v_sensitivity c)
           \<and> (bull (sc_of req) = None \<longrightarrow>
                 v_pv_by_scenario c ''bull''
                   = Some (f_round2 A (f_mul A (f_add A (cum_pv (last fl)) pv_tv)
                                          (f_lit A (12 / 10))))
                 \<and> v_flows_by c ''bull'' = None)
           \<and> (bear (sc_of req) = None \<longrightarrow>
                 v_pv_by_scenario c ''bear''
                   = Some (f_round2 A (f_mul A (f_add A (cum_pv (last fl)) pv_tv)
                                          (f_lit A (8 / 10))))
                 \<and> v_flows_by c ''bear'' = None)"
  using assms
  by (auto simp: dcf_core_def s_base_of_def Let_def bindE_eq_Inr py_last_def
                 optional_defaults_def
           split: option.splits prod.splits if_splits)

lemma dcf_core_values:
  assumes "dcf_core A req = Inr c"
    and "s_base_of A req = Inr sb"
    and "project_cash_flows A sb = Inr (fl, tv, pv_tv)"
    and "to_float A (terminal_g sb) = Inr base_g"
    and "to_float A (reinvestment_rate sb) = Inr reinv"
  shows "v_pv_by_scenario c ''base'' = Some (f_round2 A (f_add A (cum_pv (last fl)) pv_tv))"
    and "v_flows_by c ''base'' = Some fl"
    and "sensitivity_loop A
           (f_mul A (f_mul A (nopat (last fl)) (f_add A (f_lit A 1) base_g))
              (f_sub A (f_lit A 1) reinv))
           (cum_pv (last fl)) (max 1 (horizon req)) = Inr (v_sensitivity c)"
    and "bull (sc_of req) = None \<Longrightarrow>
           v_pv_by_scenario c ''bull''
             = Some (f_round2 A (f_mul A (f_add A (cum_pv (last fl)) pv_tv) (f_lit A (12 / 10))))
           \<and> v_flows_by c ''bull'' = None"
    and "bear (sc_of req) = None \<Longrightarrow>
           v_pv_by_scenario c ''bear''
             = Some (f_round2 A (f_mul A (f_add A (cum_pv (last fl)) pv_tv) (f_lit A (8 / 10))))
           \<and> v_flows_by c ''bear'' = None"
  using dcf_core_Inr [OF assms(1)] assms(2-5) by auto

lemma dcf_core_dom:
  assumes "dcf_core A req = Inr c"
  shows "dom (v_pv_by_scenario c) = {''base'', ''bull'', ''bear''}"
  using assms
  by (auto simp: dcf_core_def Let_def bindE_eq_Inr py_last_def
           split: option.splits prod.splits if_splits)

lemma dcf_core_horizon_clamped:
  "h \<le> 0 \<Longrightarrow> dcf_core A (req\<lparr>horizon := h\<rparr>) = dcf_core A (req\<lparr>horizon := 1\<rparr>)"
  unfolding dcf_core_def
  by (simp add: max_def Let_def r_of_def sc_of_def)

lemma dcf_horizon_clamped:
  "h \<le> 0 \<Longrightarrow> dcf A ev (req\<lparr>horizon := h\<rparr>) = dcf A ev (req\<lparr>horizon := 1\<rparr>)"
  by (simp add: dcf_def dcf_core_horizon_clamped)

lemma str_int_env0: "str_int (now_ms env0) = ''1700000000000''"
  by (simp add: env0_def str_int_def str_nat.simps digit_char_def)

lemma str_int_env1: "str_int (now_ms env1) = ''1700000000001''"
  by (simp add: env1_def str_int_def str_nat.simps digit_char_def)

lemma files_depend_on_env:
  "dcf_core A req = Inr c \<Longrightarrow>
     map_sum id files (dcf A env0 req) \<noteq> map_sum id files (dcf A env1 req)"
  by (simp add: dcf_def Let_def write_workbook_def str_int_env0 str_int_env1)
     (simp add: env0_def env1_def)

subsection \<open>Facts of the exact arithmetic\<close>

lemma next_growth_exact:
  "next_growth exact gt d c = (if gt < c then max gt (c - d) else min gt (c + d))"
  by (simp add: next_growth_def)

lemma next_growth_nonneg_decay:
  "0 \<le> d \<Longrightarrow> next_growth exact gt d c =
     (if gt < c then max gt (c - d) else if c < gt then min gt (c + d) else c)"
  by (auto simp: next_growth_exact)

lemma next_growth_above:
  "0 \<le> d \<Longrightarrow> gt \<le> c \<Longrightarrow> gt \<le> next_growth exact gt d c \<and> next_growth exact gt d c \<le> c"
  by (auto simp: next_growth_exact)

lemma next_growth_below:
  "0 \<le> d \<Longrightarrow> c \<le> gt \<Longrightarrow> c \<le> next_growth exact gt d c \<and> next_growth exact gt d c \<le> gt"
  by (auto simp: next_growth_exact)

lemma growth_iter_above:
  "0 \<le> d \<Longrightarrow> gt \<le> c \<Longrightarrow>
     gt \<le> (next_growth exact gt d ^^ n) c \<and> (next_growth exact gt d ^^ n) c \<le> c"
proof (induction n)
  case 0
  then show ?case by simp
next
  case (Suc n)
  then show ?case
    using next_growth_above [of d gt "(next_growth exact gt d ^^ n) c"] by auto
qed

lemma growth_iter_below:
  "0 \<le> d \<Longrightarrow> c \<le> gt \<Longrightarrow>
     c \<le> (next_growth exact gt d ^^ n) c \<and> (next_growth exact gt d ^^ n) c \<le> gt"
proof (induction n)
  case 0
  then show ?case by simp
next
  case (Suc n)
  then show ?case
    using next_growth_below [of d "(next_growth exact gt d ^^ n) c" gt] by auto
qed

lemma fpow_nonneg: "0 \<le> n \<Longrightarrow> fpow x n = Inr (x ^ nat n)"
  by (simp add: fpow_def)


subsection \<open>The example requests evaluated in exact arithmetic\<close>

lemma base_default_1:
  "\<not> isl (s_base_of exact (req_default 1))"
  "base_projection (req_default 1) =
     Inr ([\<lparr>year = 1, revenue = 1100, ebit = 220, nopat = 869 / 5, reinvestment = 6083 / 100,
            fcf = 11297 / 100, discountFactor = 10 / 11, pv_fcf = 1027 / 10, cum_pv = 1027 / 10\<rparr>],
          576147 / 400, 52377 / 40)"
  "to_float exact (terminal_g (projr (s_base_of exact (req_default 1)))) = Inr (2 / 100)"
  "to_float exact (reinvestment_rate (projr (s_base_of exact (req_default 1)))) = Inr (35 / 100)"
  "s_horizon (projr (s_base_of exact (req_default 1))) = max 1 (horizon (req_default 1))"
  by code_simp+

lemma dcf_core_default_1: "\<not> isl (dcf_core exact (req_default 1))"
  by code_simp

lemma base_unit:
  "\<not> isl (s_base_of exact req_unit)"
  "base_projection req_unit =
     Inr ([\<lparr>year = 1, revenue = 12503 / 125, ebit = 12503 / 125, nopat = 12503 / 125,
            reinvestment = 0, fcf = 12503 / 125, discountFactor = 1 / 2,
            pv_fcf = 12503 / 250, cum_pv = 12503 / 250\<rparr>],
          12503 / 125, 12503 / 250)"
  by code_simp+

lemma dcf_core_unit: "\<not> isl (dcf_core exact req_unit)"
  by code_simp

lemma sc_unit: "bull (sc_of req_unit) = None" "bear (sc_of req_unit) = None"
  by (simp_all add: sc_of_def req_unit_def req_plain_def)

lemma round_unit:
  "py_round2 (12503 / 125) = 5001 / 50"
  "py_round2 (75018 / 625) = 12003 / 100"
  "py_round2 (50012 / 625) = 4001 / 50"
  "py_round2 (15003 / 125) = 6001 / 50"
  by code_simp+

lemma pv_unit:
  "v_pv_by_scenario (projr (dcf_core exact req_unit)) ''base'' = Some (5001 / 50)"
  "v_pv_by_scenario (projr (dcf_core exact req_unit)) ''bull'' = Some (12003 / 100)"
  by code_simp+


lemma base_plain_2:
  "\<not> isl (s_base_of exact (req_plain 1 2))"
  "\<not> isl (read_locals exact (projr (s_base_of exact (req_plain 1 2))))"
  "\<not> isl (base_projection (req_plain 1 2))"
  "p_r (base_locals (req_plain 1 2)) = 1"
  "length (fst (projr (base_projection (req_plain 1 2)))) = 2"
  "s_horizon (projr (s_base_of exact (req_plain 1 2))) = 2"
  by code_simp+

lemma defaults_growth_10:
  "\<not> isl (scenario_defaults exact (Some [''growth'' \<mapsto> NInt 10]) 5 (1 / 10))"
  "growth (projr (scenario_defaults exact (Some [''growth'' \<mapsto> NInt 10]) 5 (1 / 10))) = NFloat (1 / 10)"
  by code_simp+

section \<open>The claims\<close>

text \<open>
  C1 (as amended). For every arithmetic: when the endpoint returns, and the base
  scenario is projected over the request's horizon (its own \<open>horizon\<close> entry is the
  clamped request-level horizon), the sensitivity grid has 42 cells and the cell at
  position \<open>6 * i + j\<close> is the one for \<open>w = 6 + i\<close> and \<open>g_i = grid_g[j]\<close>. Its value is
  computed from the base projection's last row alone: \<open>fcf_next\<close> is the last \<open>nopat\<close>
  times \<open>1 + terminal_g\<close> times \<open>1 - reinvestment_rate\<close> of the base scenario, the same for
  all cells; the cell's terminal growth enters only the Gordon denominator
  \<open>max(1e-6, w/100 - g_i/100)\<close>; the terminal value is divided by \<open>(1 + w/100) ** horizon\<close>,
  added to the last \<open>cum_pv\<close> and rounded to two decimals. The claim as written has
  \<open>nopat_next\<close> recomputed per cell with the cell's terminal growth.
\<close>

theorem C1_sensitivity_cells:
  assumes "dcf A ev req = Inr res"
    and "s_base_of A req = Inr sb"
    and "project_cash_flows A sb = Inr (fl, tv, pv_tv)"
    and "to_float A (terminal_g sb) = Inr base_g"
    and "to_float A (reinvestment_rate sb) = Inr reinv"
    and "s_horizon sb = max 1 (horizon req)"
    and "i < 7" and "j < 6"
  shows "length (sensitivity res) = 42
         \<and> (\<exists>pw. f_pow A (f_add A (f_lit A 1)
                            (f_quot A (f_lit A (of_int (6 + int i))) (f_lit A 100)))
                    (s_horizon sb) = Inr pw
              \<and> sensitivity res ! (i * 6 + j) =
                  \<lparr> sp_wacc = f_lit A (of_int (6 + int i)),
                    sp_terminalG = f_lit A (grid_g ! j),
                    sp_value = f_round2 A (f_add A (cum_pv (last fl))
                      (f_quot A
                         (f_quot A
                            (f_mul A (f_mul A (nopat (last fl)) (f_add A (f_lit A 1) base_g))
                               (f_sub A (f_lit A 1) reinv))
                            (fmax A (f_lit A (1 / 1000000))
                               (f_sub A (f_quot A (f_lit A (of_int (6 + int i))) (f_lit A 100))
                                        (f_quot A (f_lit A (grid_g ! j)) (f_lit A 100)))))
                         pw)) \<rparr>)"
proof -
  from dcf_Inr_core [OF assms(1)] obtain c where
    c: "dcf_core A req = Inr c" "sensitivity res = v_sensitivity c" by blast
  note s = dcf_core_values(3) [OF c(1) assms(2-5)]
  from sensitivity_loop_Inr(1) [OF s] have len: "length (sensitivity res) = 42"
    by (simp add: c(2))
  from sens_cell_Inr [OF sensitivity_loop_Inr(2) [OF s assms(7,8)]] len
  show ?thesis
    unfolding c(2) assms(6) by simp
qed

text \<open>C1 at the all-defaults request with a horizon of one year, in exact arithmetic.\<close>

theorem C1_sensitivity_cells_witness:
  "\<not> isl (dcf exact env0 (req_default 1))
   \<and> s_horizon (projr (s_base_of exact (req_default 1))) = max 1 (horizon (req_default 1))
   \<and> length (sensitivity (projr (dcf exact env0 (req_default 1)))) = 42
   \<and> sp_wacc (sensitivity (projr (dcf exact env0 (req_default 1))) ! 0) = 6
   \<and> sp_terminalG (sensitivity (projr (dcf exact env0 (req_default 1))) ! 0) = 0"
proof -
  note c = projr_collapse [OF dcf_core_default_1]
  have r: "dcf exact env0 (req_default 1) = Inr (projr (dcf exact env0 (req_default 1)))"
    using dcf_of_core(1) [OF c] by simp
  note sb = projr_collapse [OF base_default_1(1)]
  note w = C1_sensitivity_cells [OF r sb base_default_1(2) [unfolded base_projection_def]
             base_default_1(3,4,5), of 0 0]
  from w dcf_of_core(1) [OF c, of env0] base_default_1(5) show ?thesis
    by (auto simp: grid_g_def)
qed

text \<open>
  At the all-defaults request with a horizon of one year, the first cell (wacc 6,
  terminal growth 0) is 1914.48 in the code; recomputing \<open>nopat_next\<close> with the cell's
  terminal growth, as the claim words it, gives 1878.96.
\<close>

theorem C1_counterexample:
  "\<not> isl (dcf exact env0 (req_default 1))
   \<and> sp_value (hd (sensitivity (projr (dcf exact env0 (req_default 1))))) = 47862 / 25
   \<and> spec_sens_value (last (fst (projr (base_projection (req_default 1)))))
        (35 / 100) 1 6 0 = 46974 / 25
   \<and> sp_value (hd (sensitivity (projr (dcf exact env0 (req_default 1)))))
       \<noteq> spec_sens_value (last (fst (projr (base_projection (req_default 1)))))
            (35 / 100) 1 6 0"
proof -
  note c = projr_collapse [OF dcf_core_default_1]
  have "sp_value (hd (v_sensitivity (projr (dcf_core exact (req_default 1))))) = 47862 / 25"
    by code_simp
  moreover have "spec_sens_value (last (fst (projr (base_projection (req_default 1)))))
        (35 / 100) 1 6 0 = 46974 / 25"
    by code_simp
  ultimately show ?thesis
    using dcf_of_core [OF c, of env0] by simp
qed

text \<open>
  C2. The claim is that no request with finite numeric inputs makes the core raise. The
  request \<open>{ticker: "ACME", horizon: 1, wacc: -1}\<close> does: \<open>1.0 + r\<close> is \<open>0.0\<close>, so the
  discount factor \<open>1.0 / ((1.0 + r) ** 1)\<close> of year 1 divides by zero.
\<close>

theorem C2_wacc_minus_one_raises: "dcf exact ev req_wacc_minus_one = Inl ZeroDivisionError"
proof -
  have "isl (dcf_core exact req_wacc_minus_one)"
    and "projl (dcf_core exact req_wacc_minus_one) = ZeroDivisionError"
    by code_simp+
  then have "dcf_core exact req_wacc_minus_one = Inl ZeroDivisionError"
    by (rule isl_projl_eq)
  then show ?thesis by (rule dcf_core_Inl)
qed

text \<open>
  C3 (as amended). For every arithmetic: in every returned valuation, with \<open>ev_base\<close>
  the unrounded base enterprise value (the last \<open>cum_pv\<close> of the base projection plus its
  discounted terminal value), \<open>pvByScenario["base"]\<close> is \<open>round(ev_base, 2)\<close>; when the
  bull overrides are omitted, \<open>pvByScenario["bull"]\<close> is \<open>round(ev_base * 1.2, 2)\<close> and no
  bull projection is recorded in \<open>flows_by\<close>; when the bear overrides are omitted,
  \<open>pvByScenario["bear"]\<close> is \<open>round(ev_base * 0.8, 2)\<close> and no bear projection is
  recorded. The product and the rounding are those of the arithmetic. The claim as
  written takes the ratio of the rounded base value.
\<close>

theorem C3_synthesized_scenarios:
  assumes "dcf A ev req = Inr res" and "dcf_core A req = Inr c"
    and "s_base_of A req = Inr sb"
    and "project_cash_flows A sb = Inr (fl, tv, pv_tv)"
  shows "pvByScenario res ''base'' = Some (f_round2 A (f_add A (cum_pv (last fl)) pv_tv))
         \<and> (bull (sc_of req) = None \<longrightarrow>
               pvByScenario res ''bull''
                 = Some (f_round2 A (f_mul A (f_add A (cum_pv (last fl)) pv_tv)
                                        (f_lit A (12 / 10))))
               \<and> v_flows_by c ''bull'' = None)
         \<and> (bear (sc_of req) = None \<longrightarrow>
               pvByScenario res ''bear''
                 = Some (f_round2 A (f_mul A (f_add A (cum_pv (last fl)) pv_tv)
                                        (f_lit A (8 / 10))))
               \<and> v_flows_by c ''bear'' = None)"
proof -
  from dcf_Inr_core [OF assms(1)] assms(2) have "pvByScenario res = v_pv_by_scenario c" by auto
  with dcf_core_Inr [OF assms(2)] assms(3,4) show ?thesis by auto
qed

text \<open>C3 at a request whose base enterprise value is 100.024, in exact arithmetic.\<close>

theorem C3_synthesized_scenarios_witness:
  "bull (sc_of req_unit) = None \<and> bear (sc_of req_unit) = None
   \<and> pvByScenario (projr (dcf exact env0 req_unit)) ''base'' = Some (5001 / 50)
   \<and> pvByScenario (projr (dcf exact env0 req_unit)) ''bull'' = Some (12003 / 100)
   \<and> pvByScenario (projr (dcf exact env0 req_unit)) ''bear'' = Some (4001 / 50)
   \<and> v_flows_by (projr (dcf_core exact req_unit)) ''bull'' = None
   \<and> v_flows_by (projr (dcf_core exact req_unit)) ''bear'' = None"
proof -
  note c = projr_collapse [OF dcf_core_unit]
  have r: "dcf exact env0 req_unit = Inr (projr (dcf exact env0 req_unit))"
    using dcf_of_core(1) [OF c] by simp
  note sb = projr_collapse [OF base_unit(1)]
  from C3_synthesized_scenarios [OF r c sb base_unit(2) [unfolded base_projection_def]] sc_unit
  show ?thesis by (simp add: round_unit)
qed

text \<open>
  With a base enterprise value of 100.024 and the bull overrides omitted, the returned
  base value is 100.02 and the returned bull value is 120.03, while
  \<open>round(1.20 * 100.02, 2)\<close> is 120.02.
\<close>

theorem C3_counterexample:
  "bull (sc_of req_unit) = None
   \<and> \<not> isl (dcf exact env0 req_unit)
   \<and> pvByScenario (projr (dcf exact env0 req_unit)) ''base'' = Some (5001 / 50)
   \<and> pvByScenario (projr (dcf exact env0 req_unit)) ''bull'' = Some (12003 / 100)
   \<and> py_round2 (12 / 10 * (5001 / 50)) = 6001 / 50
   \<and> pvByScenario (projr (dcf exact env0 req_unit)) ''bull''
       \<noteq> Some (py_round2 (12 / 10 * the (pvByScenario (projr (dcf exact env0 req_unit)) ''base'')))"
proof -
  note c = projr_collapse [OF dcf_core_unit]
  from pv_unit dcf_of_core [OF c, of env0] sc_unit round_unit(4)
  show ?thesis by simp
qed

text \<open>
  C4 (as amended). For a growth_decay that is not negative: let \<open>st\<close> be the loop's
  variables after \<open>n\<close> iterations and \<open>st'\<close> after \<open>n + 1\<close>, so that \<open>l_g st\<close> is the
  growth used in year \<open>n + 1\<close> and \<open>l_g st'\<close> the growth used in year \<open>n + 2\<close>. The step
  lowers growth by growth_decay, floored at terminal_g, when it is above terminal_g,
  raises it by growth_decay, capped at terminal_g, when it is below, and leaves it
  unchanged when equal. From a start at or above terminal_g the sequence never
  increases and stays at or above terminal_g; from a start at or below it never
  decreases and stays at or below. The claim as written is for any growth_decay.
\<close>

theorem C4_growth_monotone:
  assumes d: "0 \<le> p_g_decay p"
    and st: "for_loop (loop_body exact p) [1..int n] (loop_init exact p) = Inr st"
    and st': "for_loop (loop_body exact p) [1..int n + 1] (loop_init exact p) = Inr st'"
  shows "l_g st' = (if p_g_terminal p < l_g st then max (p_g_terminal p) (l_g st - p_g_decay p)
                    else if l_g st < p_g_terminal p then min (p_g_terminal p) (l_g st + p_g_decay p)
                    else l_g st)
         \<and> (p_g_terminal p \<le> p_g p \<longrightarrow>
              p_g_terminal p \<le> l_g st' \<and> l_g st' \<le> l_g st \<and> l_g st \<le> p_g p)
         \<and> (p_g p \<le> p_g_terminal p \<longrightarrow>
              p_g p \<le> l_g st \<and> l_g st \<le> l_g st' \<and> l_g st' \<le> p_g_terminal p)"
proof -
  let ?F = "next_growth exact (p_g_terminal p) (p_g_decay p)"
  have g: "l_g st = (?F ^^ n) (p_g p)"
    using loop_growth [OF st] by (simp add: loop_init_def)
  have "l_g st' = (?F ^^ (Suc n)) (p_g p)"
    using loop_growth [OF st'] by (simp add: loop_init_def nat_add_distrib)
  then have g': "l_g st' = ?F (l_g st)" by (simp add: g)
  have step: "l_g st' = (if p_g_terminal p < l_g st then max (p_g_terminal p) (l_g st - p_g_decay p)
                    else if l_g st < p_g_terminal p then min (p_g_terminal p) (l_g st + p_g_decay p)
                    else l_g st)"
    unfolding g' by (rule next_growth_nonneg_decay [OF d])
  have above: "p_g_terminal p \<le> l_g st' \<and> l_g st' \<le> l_g st \<and> l_g st \<le> p_g p"
    if "p_g_terminal p \<le> p_g p"
    using growth_iter_above [OF d that, of n] next_growth_above [OF d, of "p_g_terminal p" "l_g st"]
    by (simp add: g g')
  have below: "p_g p \<le> l_g st \<and> l_g st \<le> l_g st' \<and> l_g st' \<le> p_g_terminal p"
    if "p_g p \<le> p_g_terminal p"
    using growth_iter_below [OF d that, of n] next_growth_below [OF d, of "l_g st" "p_g_terminal p"]
    by (simp add: g g')
  from step above below show ?thesis by blast
qed

text \<open>C4 at the all-defaults scenario: growth 0.10, then 0.08, then 0.06.\<close>

theorem C4_growth_monotone_witness:
  "0 \<le> p_g_decay (base_locals (req_default 5))
   \<and> p_g_terminal (base_locals (req_default 5)) \<le> p_g (base_locals (req_default 5))
   \<and> l_g (projr (for_loop (loop_body exact (base_locals (req_default 5))) [1..1]
                  (loop_init exact (base_locals (req_default 5))))) = 8 / 100
   \<and> l_g (projr (for_loop (loop_body exact (base_locals (req_default 5))) [1..2]
                  (loop_init exact (base_locals (req_default 5))))) = 6 / 100"
proof -
  let ?p = "base_locals (req_default 5)"
  define st1 where "st1 = projr (for_loop (loop_body exact ?p) [1..1] (loop_init exact ?p))"
  define st2 where "st2 = projr (for_loop (loop_body exact ?p) [1..2] (loop_init exact ?p))"
  have d: "0 \<le> p_g_decay ?p" by code_simp
  have "\<not> isl (for_loop (loop_body exact ?p) [1..1] (loop_init exact ?p))" by code_simp
  then have a: "for_loop (loop_body exact ?p) [1..int 1] (loop_init exact ?p) = Inr st1"
    unfolding st1_def by simp
  have "\<not> isl (for_loop (loop_body exact ?p) [1..2] (loop_init exact ?p))" by code_simp
  then have b: "for_loop (loop_body exact ?p) [1..int 1 + 1] (loop_init exact ?p) = Inr st2"
    unfolding st2_def by simp
  have v: "l_g st1 = 8 / 100" "p_g_terminal ?p = 2 / 100" "p_g_decay ?p = 2 / 100"
    "p_g ?p = 10 / 100"
    unfolding st1_def by code_simp+
  from C4_growth_monotone [OF d a b] d
  have "0 \<le> p_g_decay ?p \<and> p_g_terminal ?p \<le> p_g ?p
        \<and> l_g st1 = 8 / 100 \<and> l_g st2 = 6 / 100"
    by (simp add: v)
  then show ?thesis unfolding st1_def st2_def .
qed

text \<open>
  With \<open>growth_decay = -0.02\<close> (which \<open>pct\<close> leaves unchanged), growth 0.10 and
  terminal_g 0.02, the first step takes growth to 0.12: away from terminal_g.
\<close>

theorem C4_counterexample:
  "p_g_terminal (base_locals req_negative_decay) < p_g (base_locals req_negative_decay)
   \<and> \<not> isl (for_loop (loop_body exact (base_locals req_negative_decay)) [1..1]
               (loop_init exact (base_locals req_negative_decay)))
   \<and> p_g (base_locals req_negative_decay)
       < l_g (projr (for_loop (loop_body exact (base_locals req_negative_decay)) [1..1]
               (loop_init exact (base_locals req_negative_decay))))"
  by code_simp




text \<open>
  C6 (as amended). For every arithmetic: a returned projection has \<open>horizon\<close> rows, and
  the row at index \<open>i\<close> has year \<open>float(i + 1)\<close> and discountFactor
  \<open>1.0 / ((1.0 + r) ** (i + 1))\<close>, that is \<open>(1 + wacc)\<close> to the power \<open>- year\<close>. In exact
  arithmetic: for every wacc above \<open>-1\<close> the discount factors are strictly positive, and
  for every wacc that is not negative they do not increase from one year to the next. The
  claim as written has them strictly decreasing for every wacc above \<open>-1\<close>.
\<close>

theorem C6_discount_factor:
  "(project_cash_flows A s = Inr (fl, tv, pv_tv) \<longrightarrow> read_locals A s = Inr p \<longrightarrow>
      i < length fl \<longrightarrow>
        length fl = nat (s_horizon s)
        \<and> year (fl ! i) = f_lit A (of_int (int i + 1))
        \<and> (\<exists>pw. f_pow A (f_add A (f_lit A 1) (p_r p)) (int i + 1) = Inr pw
                \<and> \<not> f_is_zero A pw
                \<and> discountFactor (fl ! i) = f_quot A (f_lit A 1) pw))
   \<and> (project_cash_flows exact s' = Inr (fl', tv', pv_tv') \<longrightarrow> read_locals exact s' = Inr p' \<longrightarrow>
      k < length fl' \<longrightarrow>
        (- 1 < p_r p' \<longrightarrow> 0 < discountFactor (fl' ! k))
        \<and> (0 \<le> p_r p' \<longrightarrow> Suc k < length fl' \<longrightarrow>
              discountFactor (fl' ! Suc k) \<le> discountFactor (fl' ! k)))"
proof (intro conjI impI)
  assume a: "project_cash_flows A s = Inr (fl, tv, pv_tv)" "read_locals A s = Inr p"
    "i < length fl"
  from project_cash_flows_rows [OF a]
  show "length fl = nat (s_horizon s)"
    and "year (fl ! i) = f_lit A (of_int (int i + 1))"
    and "\<exists>pw. f_pow A (f_add A (f_lit A 1) (p_r p)) (int i + 1) = Inr pw
                \<and> \<not> f_is_zero A pw
                \<and> discountFactor (fl ! i) = f_quot A (f_lit A 1) pw"
    by simp_all
next
  assume a: "project_cash_flows exact s' = Inr (fl', tv', pv_tv')" "read_locals exact s' = Inr p'"
    "k < length fl'"
  have df: "discountFactor (fl' ! m) = 1 / (1 + p_r p') ^ (m + 1)" if "m < length fl'" for m
  proof -
    from project_cash_flows_rows(3) [OF a(1,2) that] obtain pw where
      "fpow (1 + p_r p') (int m + 1) = Inr pw" "discountFactor (fl' ! m) = 1 / pw"
      by auto
    then show ?thesis by (simp add: fpow_def nat_add_distrib)
  qed
  show "0 < discountFactor (fl' ! k)" if "- 1 < p_r p'"
    using that by (simp add: df [OF a(3)])
  show "discountFactor (fl' ! Suc k) \<le> discountFactor (fl' ! k)"
    if w: "0 \<le> p_r p'" and sk: "Suc k < length fl'"
  proof -
    have "(1 + p_r p') ^ (k + 1) \<le> (1 + p_r p') ^ (Suc k + 1)"
      using w by (intro power_increasing) simp_all
    moreover have "0 < (1 + p_r p') ^ (k + 1)" using w by simp
    ultimately show ?thesis
      by (simp add: df [OF a(3)] df [OF sk] frac_le del: power_Suc)
  qed
qed

text \<open>C6 at a request with a wacc of 1 and a horizon of two years: factors 0.5 and 0.25.\<close>

theorem C6_discount_factor_witness:
  "length (fst (projr (base_projection (req_plain 1 2)))) = 2
   \<and> 0 \<le> p_r (base_locals (req_plain 1 2))
   \<and> year (fst (projr (base_projection (req_plain 1 2))) ! 0) = 1
   \<and> discountFactor (fst (projr (base_projection (req_plain 1 2))) ! 0) = 1 / 2
   \<and> 0 < discountFactor (fst (projr (base_projection (req_plain 1 2))) ! 0)
   \<and> discountFactor (fst (projr (base_projection (req_plain 1 2))) ! 1)
       \<le> discountFactor (fst (projr (base_projection (req_plain 1 2))) ! 0)"
proof -
  let ?s = "projr (s_base_of exact (req_plain 1 2))"
  let ?P = "base_projection (req_plain 1 2)"
  have p: "read_locals exact ?s = Inr (base_locals (req_plain 1 2))"
    unfolding base_locals_def by (rule projr_collapse [OF base_plain_2(2)])
  have pr: "project_cash_flows exact ?s
              = Inr (fst (projr ?P), fst (snd (projr ?P)), snd (snd (projr ?P)))"
    using projr_collapse [OF base_plain_2(3)] by (simp add: base_projection_def)
  have i: "0 < length (fst (projr ?P))" by (simp add: base_plain_2(5))
  note w = C6_discount_factor [of exact ?s "fst (projr ?P)" "fst (snd (projr ?P))"
              "snd (snd (projr ?P))" "base_locals (req_plain 1 2)" 0
              ?s "fst (projr ?P)" "fst (snd (projr ?P))" "snd (snd (projr ?P))"
              "base_locals (req_plain 1 2)" 0]
  from w pr p i show ?thesis
    by (auto simp: base_plain_2(4,5,6) fpow_def)
qed

text \<open>
  With \<open>wacc = -0.5\<close>, which is above \<open>-1\<close>, and a horizon of two years the discount
  factors are 2 and 4: increasing. With \<open>wacc = 0\<close> they are 1 and 1: not strictly
  decreasing.
\<close>

theorem C6_counterexample:
  "- 1 < p_r (base_locals req_negative_wacc)
   \<and> map discountFactor (fst (projr (base_projection req_negative_wacc))) = [2, 4]
   \<and> \<not> discountFactor (fst (projr (base_projection req_negative_wacc)) ! 1)
         < discountFactor (fst (projr (base_projection req_negative_wacc)) ! 0)
   \<and> - 1 < p_r (base_locals req_zero_wacc)
   \<and> map discountFactor (fst (projr (base_projection req_zero_wacc))) = [1, 1]
   \<and> \<not> discountFactor (fst (projr (base_projection req_zero_wacc)) ! 1)
         < discountFactor (fst (projr (base_projection req_zero_wacc)) ! 0)"
  by code_simp

text \<open>
  C7. The claim is that a horizon \<open>\<le> 0\<close> is clamped to 1 wherever it is supplied. The
  request-level horizon is (lemma \<open>dcf_horizon_clamped\<close>); a scenario-level override is
  not: with \<open>{base: {horizon: 0}}\<close> the projection loop runs no iteration and
  \<open>flows[-1]\<close> raises IndexError, in every arithmetic.
\<close>

theorem C7_scenario_horizon_zero_raises: "dcf A ev req_base_horizon_zero = Inl IndexError"
proof -
  have "dcf_core A req_base_horizon_zero = Inl IndexError"
    by (simp add: dcf_core_def req_base_horizon_zero_def r_of_def pct_def to_float_def to_int_def
        sc_of_def scenario_defaults_def get_or_def optional_defaults_def
        project_cash_flows_def read_locals_def loop_init_def py_last_def Let_def)
  then show ?thesis by (rule dcf_core_Inl)
qed

text \<open>
  C8 (as amended). For every arithmetic: \<open>pct\<close> divides a supplied float or int by
  100 exactly when it is greater than 1 and returns it unchanged otherwise; each of the seven
  rate-like fields of a normalized scenario is \<open>pct\<close> of the override under its key;
  and when a value \<open>v\<close> is greater than 1 (a percent form) and its quotient by 100 is not
  greater than 1 (a decimal form), supplying \<open>v\<close> or the quotient under any of the seven
  keys normalizes to the same scenario. The claim as written has this for every rate.
\<close>

theorem C8_pct_coercion:
  "pct A (Some (NFloat x)) d =
     (if f_gt A x (f_lit A 1)
      then (if f_is_zero A (f_lit A 100) then Inl ZeroDivisionError
            else Inr (NFloat (f_quot A x (f_lit A 100))))
      else Inr (NFloat x))
   \<and> pct A (Some (NInt n)) d =
     (if 1 < n then bindE (f_of_int A n) (\<lambda>y.
                     if f_is_zero A (f_lit A 100) then Inl ZeroDivisionError
                     else Inr (NFloat (f_quot A y (f_lit A 100))))
      else Inr (NInt n))
   \<and> (scenario_defaults A (Some ov) N r = Inr s \<longrightarrow>
        pct A (ov ''growth'') (f_lit A (10 / 100)) = Inr (growth s)
        \<and> pct A (ov ''growth_decay'') (f_lit A (2 / 100)) = Inr (growth_decay s)
        \<and> pct A (ov ''ebit_margin'') (f_lit A (20 / 100)) = Inr (ebit_margin s)
        \<and> pct A (ov ''tax_rate'') (f_lit A (21 / 100)) = Inr (tax_rate s)
        \<and> pct A (ov ''reinvestment_rate'') (f_lit A (35 / 100)) = Inr (reinvestment_rate s)
        \<and> pct A (ov ''terminal_g'') (f_lit A (2 / 100)) = Inr (terminal_g s)
        \<and> pct A (ov ''wacc'') r = Inr (s_wacc s))
   \<and> (k \<in> set rate_keys \<longrightarrow> gt_one A v \<longrightarrow> div100 A v = Inr q \<longrightarrow> \<not> f_gt A q (f_lit A 1) \<longrightarrow>
        scenario_defaults A (Some (ov'(k \<mapsto> v))) N' r'
          = scenario_defaults A (Some (ov'(k \<mapsto> NFloat q))) N' r')"
proof (intro conjI impI)
  show "pct A (Some (NFloat x)) d =
     (if f_gt A x (f_lit A 1)
      then (if f_is_zero A (f_lit A 100) then Inl ZeroDivisionError
            else Inr (NFloat (f_quot A x (f_lit A 100))))
      else Inr (NFloat x))"
    by (simp add: pct_def gt_one_def div100_def to_float_def fdiv_def)
next
  show "pct A (Some (NInt n)) d =
     (if 1 < n then bindE (f_of_int A n) (\<lambda>y.
                     if f_is_zero A (f_lit A 100) then Inl ZeroDivisionError
                     else Inr (NFloat (f_quot A y (f_lit A 100))))
      else Inr (NInt n))"
    by (cases "f_of_int A n") (simp_all add: pct_def gt_one_def div100_def to_float_def fdiv_def)
next
  assume "scenario_defaults A (Some ov) N r = Inr s"
  from scenario_defaults_fields [OF this]
  show "pct A (ov ''growth'') (f_lit A (10 / 100)) = Inr (growth s)"
    "pct A (ov ''growth_decay'') (f_lit A (2 / 100)) = Inr (growth_decay s)"
    "pct A (ov ''ebit_margin'') (f_lit A (20 / 100)) = Inr (ebit_margin s)"
    "pct A (ov ''tax_rate'') (f_lit A (21 / 100)) = Inr (tax_rate s)"
    "pct A (ov ''reinvestment_rate'') (f_lit A (35 / 100)) = Inr (reinvestment_rate s)"
    "pct A (ov ''terminal_g'') (f_lit A (2 / 100)) = Inr (terminal_g s)"
    "pct A (ov ''wacc'') r = Inr (s_wacc s)"
    by simp_all
next
  assume "k \<in> set rate_keys" "gt_one A v" "div100 A v = Inr q" "\<not> f_gt A q (f_lit A 1)"
  then show "scenario_defaults A (Some (ov'(k \<mapsto> v))) N' r'
          = scenario_defaults A (Some (ov'(k \<mapsto> NFloat q))) N' r'"
    by (rule scenario_defaults_percent_decimal)
qed

text \<open>C8 at \<open>growth = 10\<close> and \<open>growth = 0.10\<close>, in exact arithmetic.\<close>

theorem C8_pct_coercion_witness:
  "''growth'' \<in> set rate_keys \<and> gt_one exact (NInt 10) \<and> div100 exact (NInt 10) = Inr (1 / 10)
   \<and> \<not> f_gt exact (1 / 10) (f_lit exact 1)
   \<and> scenario_defaults exact (Some [''growth'' \<mapsto> NInt 10]) 5 (1 / 10)
       = scenario_defaults exact (Some [''growth'' \<mapsto> NFloat (1 / 10)]) 5 (1 / 10)
   \<and> pct exact (Some (NFloat 10)) 0 = Inr (NFloat (1 / 10))
   \<and> pct exact (Some (NInt 10)) (1 / 10)
       = Inr (growth (projr (scenario_defaults exact (Some [''growth'' \<mapsto> NInt 10]) 5 (1 / 10))))"
proof -
  have h: "''growth'' \<in> set rate_keys" "gt_one exact (NInt 10)"
    "div100 exact (NInt 10) = Inr (1 / 10)" "\<not> f_gt exact (1 / 10) (f_lit exact 1)"
    by (simp_all add: rate_keys_def gt_one_def div100_def to_float_def fdiv_def)
  note s = projr_collapse [OF defaults_growth_10(1)]
  note w = C8_pct_coercion [of exact 10 0 10 "[''growth'' \<mapsto> NInt 10]" 5 "1 / 10"
             "projr (scenario_defaults exact (Some [''growth'' \<mapsto> NInt 10]) 5 (1 / 10))"
             "''growth''" "NInt 10" "1 / 10" Map.empty 5 "1 / 10"]
  from w h s show ?thesis by simp
qed

text \<open>
  The rate of half a percent: its percent form 0.5 is not greater than 1, so it is taken
  as the decimal 0.5, while its decimal form 0.005 stays 0.005.
\<close>

theorem C8_counterexample:
  "\<not> gt_one exact (NFloat (1 / 2))
   \<and> growth (projr (scenario_defaults exact (Some [''growth'' \<mapsto> NFloat (1 / 2)]) 5 (1 / 10)))
       = NFloat (1 / 2)
   \<and> growth (projr (scenario_defaults exact (Some [''growth'' \<mapsto> NFloat (1 / 2 / 100)]) 5 (1 / 10)))
       = NFloat (1 / 200)
   \<and> growth (projr (scenario_defaults exact (Some [''growth'' \<mapsto> NFloat (1 / 2)]) 5 (1 / 10)))
       \<noteq> growth (projr (scenario_defaults exact (Some [''growth'' \<mapsto> NFloat (1 / 2 / 100)]) 5 (1 / 10)))"
  by code_simp

text \<open>
  C9. In every arithmetic, whether the endpoint returns, and the \<open>assumptions\<close>,
  \<open>pvByScenario\<close>, \<open>sensitivity\<close> (and \<open>explain\<close>) fields of what it returns, are the
  same for every clock value and every outcome of the workbook export: they are a
  function of the request alone. The \<open>files\<close> field is not (lemma
  \<open>files_depend_on_env\<close>).
\<close>

theorem C9_core_independent_of_env:
  "map_sum id (\<lambda>res. (assumptions res, pvByScenario res, sensitivity res, explain res)) (dcf A ev req)
   = map_sum id (\<lambda>res. (assumptions res, pvByScenario res, sensitivity res, explain res)) (dcf A ev' req)"
  by (cases "dcf_core A req") (simp_all add: dcf_def Let_def)

text \<open>
  C10. In every arithmetic, the \<open>pvByScenario\<close> mapping of every returned valuation has
  exactly the keys \<open>base\<close>, \<open>bull\<close> and \<open>bear\<close>.
\<close>

theorem C10_pv_keys:
  "dcf A ev req = Inr res \<Longrightarrow> dom (pvByScenario res) = {''base'', ''bull'', ''bear''}"
proof -
  assume "dcf A ev req = Inr res"
  from dcf_Inr_core [OF this] obtain c where
    c: "dcf_core A req = Inr c" "pvByScenario res = v_pv_by_scenario c" by blast
  show ?thesis
    unfolding c(2) by (rule dcf_core_dom [OF c(1)])
qed

text \<open>C10 at a request with the bull and bear overrides omitted, in exact arithmetic.\<close>

theorem C10_pv_keys_witness:
  "\<not> isl (dcf exact env0 req_unit)
   \<and> dom (pvByScenario (projr (dcf exact env0 req_unit))) = {''base'', ''bull'', ''bear''}"
proof -
  note c = projr_collapse [OF dcf_core_unit]
  have r: "dcf exact env0 req_unit = Inr (projr (dcf exact env0 req_unit))"
    using dcf_of_core(1) [OF c] by simp
  from C10_pv_keys [OF r] dcf_of_core(1) [OF c, of env0] show ?thesis by simp
qed

end
